theory Spec2Isabelle
  imports Complex_Main
begin

section \<open>Numbers and dates\<close>

text \<open>
  Swift's \<open>Double\<close> and JavaScript's numbers are modelled as \<^typ>\<open>real\<close>: the
  arithmetic of the sources is read as exact arithmetic, without rounding, infinities
  or NaN. A Swift \<open>Date\<close> is a number of seconds since a fixed reference date.
\<close>

type_synonym Double = real
type_synonym Date = real

section \<open>Data models of the HealthKit manager (webpage.jsx, from line 1754)\<close>

record WorkoutData =
  w_type :: nat
  w_duration :: Double
  w_calories :: Double
  w_distance :: Double
  w_startDate :: Date
  w_endDate :: Date
  w_source :: string

record HeartRateReading =
  bpm :: Double
  hr_timestamp :: Date

record DeviceInfo =
  model :: string
  systemVersion :: string
  identifierForVendor :: string

record RawHealthData =
  date :: Date
  steps :: Double
  calories :: Double
  distance :: Double
  workouts :: "WorkoutData list"
  heartRateReadings :: "HeartRateReading list"
  deviceInfo :: DeviceInfo
  timestamp :: Date

record VerifiedHealthData =
  rawData :: RawHealthData
  signature :: string
  version :: string

datatype HealthKitError = notAvailable | inconsistentData string | unauthorized

section \<open>Anti-cheating validation (\<open>validateDataConsistency\<close>, lines 1674-1721)\<close>

text \<open>
  The validator throws at the first check that fails and returns normally otherwise;
  the thrown error is the \<open>Inl\<close> branch. The two \<open>for\<close> loops are the recursive
  functions below. \<open>Date()\<close>, the clock read by the future-date check, is the
  parameter \<open>now\<close>; validation is synchronous, and one reading stands for the
  readings of all loop iterations.
\<close>

fun validate_workouts :: "Date \<Rightarrow> WorkoutData list \<Rightarrow> HealthKitError + unit" where
  "validate_workouts now [] = Inr ()"
| "validate_workouts now (workout # rest) =
     (if w_duration workout > 86400
      then Inl (inconsistentData ''Workout duration exceeds 24 hours'')
      else if w_startDate workout > now
      then Inl (inconsistentData ''Workout in the future'')
      else validate_workouts now rest)"

fun validate_heartRate :: "HeartRateReading list \<Rightarrow> HealthKitError + unit" where
  "validate_heartRate [] = Inr ()"
| "validate_heartRate (reading # rest) =
     (if bpm reading < 30 \<or> bpm reading > 250
      then Inl (inconsistentData ''Heart rate outside realistic range'')
      else validate_heartRate rest)"

text \<open>
  In \<open>distanceVariance\<close> the divisor is zero when \<open>steps\<close> is zero. Swift's
  \<open>Double\<close> division does not trap there, and the quotient is only looked at when
  \<open>steps > 1000\<close>, so the value HOL gives to a division by zero is never used.
\<close>

definition validateDataConsistency :: "Date \<Rightarrow> RawHealthData \<Rightarrow> HealthKitError + unit" where
  "validateDataConsistency now data =
     (let expectedDistance = steps data * 0.75;
          distanceVariance = \<bar>distance data - expectedDistance\<bar> / expectedDistance
      in if steps data > 1000 \<and> distanceVariance > 0.5
         then Inl (inconsistentData ''Steps and distance don't correlate'')
         else
           let workoutCalories = foldl (\<lambda>acc w. acc + w_calories w) 0 (workouts data)
           in if calories data > 0 \<and> workoutCalories = 0 \<and> steps data < 100
              then Inl (inconsistentData ''Calories burned without activity'')
              else
                case validate_workouts now (workouts data) of
                  Inl e \<Rightarrow> Inl e
                | Inr _ \<Rightarrow>
                   (case validate_heartRate (heartRateReadings data) of
                      Inl e \<Rightarrow> Inl e
                    | Inr _ \<Rightarrow>
                       if steps data > 100000
                       then Inl (inconsistentData ''Unrealistic step count'')
                       else if calories data > 10000
                       then Inl (inconsistentData ''Unrealistic calorie burn'')
                       else Inr ()))"

section \<open>Fetching from HealthKit (webpage.jsx, lines 1536-1670)\<close>

text \<open>
  HealthKit is a collaborator of the manager. Its store holds, for every quantity type,
  the samples recorded on the device, and the workouts; a query either throws or
  returns the samples that match its predicate in the order of its sort descriptor.
  A quantity is stored in the unit the manager reads it in (count, kilocalorie, meter,
  beats per minute).
\<close>

datatype HKQuantityTypeIdentifier =
  stepCount | activeEnergyBurned | distanceWalkingRunning | heartRate

record HKQuantitySample =
  quantity :: Double
  s_startDate :: Date

record HKWorkout =
  workoutActivityType :: nat
  hk_duration :: Double
  totalEnergyBurned :: "Double option"
  totalDistance :: "Double option"
  hk_startDate :: Date
  hk_endDate :: Date
  bundleIdentifier :: string

text \<open>
  What a \<open>try\<close> of the manager throws: its own \<open>HealthKitError\<close> or an error of
  a HealthKit query.
\<close>

datatype thrown = healthKitError HealthKitError | queryError string

record HKHealthStore =
  quantitySamples :: "HKQuantityTypeIdentifier \<Rightarrow> thrown + HKQuantitySample list"
  workoutSamples :: "thrown + HKWorkout list"

datatype SortOrder = forward | reverse

text \<open>
  \<open>HKSampleQueryDescriptor.result\<close>: the samples whose start date lies in the
  half-open interval of the predicate (option \<open>strictStartDate\<close>), sorted on the
  start date, ascending for \<open>forward\<close> and descending for \<open>reverse\<close>.
\<close>

definition sortedBy :: "('a \<Rightarrow> Date) \<Rightarrow> SortOrder \<Rightarrow> 'a list \<Rightarrow> 'a list" where
  "sortedBy key order xs =
     (case order of forward \<Rightarrow> sort_key key xs | reverse \<Rightarrow> sort_key (\<lambda>x. - key x) xs)"

definition descriptor_result ::
  "('a \<Rightarrow> Date) \<Rightarrow> Date \<Rightarrow> Date \<Rightarrow> SortOrder \<Rightarrow> thrown + 'a list \<Rightarrow> thrown + 'a list" where
  "descriptor_result key startOfDay endOfDay order stored =
     (case stored of
        Inl e \<Rightarrow> Inl e
      | Inr xs \<Rightarrow>
          Inr (sortedBy key order (filter (\<lambda>x. startOfDay \<le> key x \<and> key x < endOfDay) xs)))"

text \<open>
  What the manager reads from its surroundings: the store, the signing key, the
  calendar (its offset from GMT in seconds), the clock, the device, the JSON encoder
  with its ISO 8601 date strategy, the HMAC with SHA-256 of CryptoKit (key first) and
  the Base64 encoding. The clock is read twice in a row without suspension in between,
  for the \<open>timestamp\<close> field and by the validator; one reading stands for both.
  A calendar day has 86400 seconds. \<open>JSONEncoder.encode\<close> is called with \<open>try\<close>; it
  throws for a value that JSON cannot represent, which for the fields of the raw data
  is a number that is not finite. The numbers here are all finite, so the encoder is a
  total function of the raw data.
\<close>

record Environment =
  healthStore :: HKHealthStore
  signingKey :: string
  secondsFromGMT :: real
  clock :: Date
  device_model :: string
  device_systemVersion :: string
  device_identifierForVendor :: "string option"
  jsonEncode :: "RawHealthData \<Rightarrow> string"
  hmacSHA256 :: "string \<Rightarrow> string \<Rightarrow> string"
  base64EncodedString :: "string \<Rightarrow> string"

definition startOfDay :: "Environment \<Rightarrow> Date \<Rightarrow> Date" where
  "startOfDay env d =
     86400 * of_int \<lfloor>(d + secondsFromGMT env) / 86400\<rfloor> - secondsFromGMT env"

definition fetchSamples ::
  "Environment \<Rightarrow> HKQuantityTypeIdentifier \<Rightarrow> Date \<Rightarrow> thrown + HKQuantitySample list" where
  "fetchSamples env type on_date =
     (let start = startOfDay env on_date;
          endOfDay = start + 86400
      in descriptor_result s_startDate start endOfDay forward
           (quantitySamples (healthStore env) type))"

definition fetchSteps :: "Environment \<Rightarrow> Date \<Rightarrow> thrown + Double" where
  "fetchSteps env for_date =
     (case fetchSamples env stepCount for_date of
        Inl e \<Rightarrow> Inl e
      | Inr samples \<Rightarrow> Inr (foldl (\<lambda>sum sample. sum + quantity sample) 0 samples))"

definition fetchCalories :: "Environment \<Rightarrow> Date \<Rightarrow> thrown + Double" where
  "fetchCalories env for_date =
     (case fetchSamples env activeEnergyBurned for_date of
        Inl e \<Rightarrow> Inl e
      | Inr samples \<Rightarrow> Inr (foldl (\<lambda>sum sample. sum + quantity sample) 0 samples))"

definition fetchDistance :: "Environment \<Rightarrow> Date \<Rightarrow> thrown + Double" where
  "fetchDistance env for_date =
     (case fetchSamples env distanceWalkingRunning for_date of
        Inl e \<Rightarrow> Inl e
      | Inr samples \<Rightarrow> Inr (foldl (\<lambda>sum sample. sum + quantity sample) 0 samples))"

definition workoutData :: "HKWorkout \<Rightarrow> WorkoutData" where
  "workoutData workout =
     \<lparr>w_type = workoutActivityType workout,
      w_duration = hk_duration workout,
      w_calories = (case totalEnergyBurned workout of None \<Rightarrow> 0 | Some q \<Rightarrow> q),
      w_distance = (case totalDistance workout of None \<Rightarrow> 0 | Some q \<Rightarrow> q),
      w_startDate = hk_startDate workout,
      w_endDate = hk_endDate workout,
      w_source = bundleIdentifier workout\<rparr>"

definition fetchWorkouts :: "Environment \<Rightarrow> Date \<Rightarrow> thrown + WorkoutData list" where
  "fetchWorkouts env for_date =
     (let start = startOfDay env for_date;
          endOfDay = start + 86400
      in case descriptor_result hk_startDate start endOfDay reverse
                (workoutSamples (healthStore env)) of
           Inl e \<Rightarrow> Inl e
         | Inr found \<Rightarrow> Inr (map workoutData found))"

definition heartRateReading :: "HKQuantitySample \<Rightarrow> HeartRateReading" where
  "heartRateReading sample = \<lparr>bpm = quantity sample, hr_timestamp = s_startDate sample\<rparr>"

definition fetchHeartRateReadings :: "Environment \<Rightarrow> Date \<Rightarrow> thrown + HeartRateReading list" where
  "fetchHeartRateReadings env for_date =
     (case fetchSamples env heartRate for_date of
        Inl e \<Rightarrow> Inl e
      | Inr samples \<Rightarrow> Inr (map heartRateReading samples))"

definition getDeviceInfo :: "Environment \<Rightarrow> DeviceInfo" where
  "getDeviceInfo env =
     \<lparr>model = device_model env,
      systemVersion = device_systemVersion env,
      identifierForVendor =
        (case device_identifierForVendor env of None \<Rightarrow> ''unknown'' | Some u \<Rightarrow> u)\<rparr>"

section \<open>Signing (\<open>createVerifiedData\<close>, lines 1725-1741)\<close>

definition createVerifiedData :: "Environment \<Rightarrow> RawHealthData \<Rightarrow> thrown + VerifiedHealthData" where
  "createVerifiedData env raw =
     (let jsonData = jsonEncode env raw;
          sig = hmacSHA256 env (signingKey env) jsonData;
          signatureString = base64EncodedString env sig
      in Inr \<lparr>rawData = raw, signature = signatureString, version = ''1.0''\<rparr>)"

section \<open>The pipeline (\<open>fetchVerifiedHealthData\<close>, lines 1536-1563)\<close>

text \<open>
  The first half of \<open>fetchVerifiedHealthData\<close>: the five fetches, each of which may
  throw, and the construction of the raw data object.
\<close>

definition fetchRawHealthData :: "Environment \<Rightarrow> Date \<Rightarrow> thrown + RawHealthData" where
  "fetchRawHealthData env for_date =
     (case fetchSteps env for_date of
        Inl e \<Rightarrow> Inl e
      | Inr fetchedSteps \<Rightarrow>
     (case fetchCalories env for_date of
        Inl e \<Rightarrow> Inl e
      | Inr fetchedCalories \<Rightarrow>
     (case fetchDistance env for_date of
        Inl e \<Rightarrow> Inl e
      | Inr fetchedDistance \<Rightarrow>
     (case fetchWorkouts env for_date of
        Inl e \<Rightarrow> Inl e
      | Inr fetchedWorkouts \<Rightarrow>
     (case fetchHeartRateReadings env for_date of
        Inl e \<Rightarrow> Inl e
      | Inr fetchedReadings \<Rightarrow>
          Inr \<lparr>date = for_date,
               steps = fetchedSteps,
               calories = fetchedCalories,
               distance = fetchedDistance,
               workouts = fetchedWorkouts,
               heartRateReadings = fetchedReadings,
               deviceInfo = getDeviceInfo env,
               timestamp = clock env\<rparr>)))))"

definition fetchVerifiedHealthData :: "Environment \<Rightarrow> Date \<Rightarrow> thrown + VerifiedHealthData" where
  "fetchVerifiedHealthData env for_date =
     (case fetchRawHealthData env for_date of
        Inl e \<Rightarrow> Inl e
      | Inr raw \<Rightarrow>
          (case validateDataConsistency (clock env) raw of
             Inl e \<Rightarrow> Inl (healthKitError e)
           | Inr _ \<Rightarrow> createVerifiedData env raw))"

section \<open>The web client (healthApiIntegration.js)\<close>

subsection \<open>Health state\<close>

text \<open>
  The \<open>data\<close> object: \<open>workouts\<close> is a number in the data of a sync and the empty
  array in the initial object and in the object built from a status reply; \<open>None\<close>
  stands for the empty array or a missing field, which both count as no workout in
  \<open>(data.workouts || 0) * 5\<close>. \<open>heartRate\<close> is missing in the data of a sync.
\<close>

record healthData =
  hd_steps :: real
  hd_calories :: real
  hd_distance :: real
  hd_workouts :: "real option"
  hd_heartRate :: "real option"

datatype sync_status = not_synced | synced | sync_error

record HealthState =
  lastSync :: "Date option"
  isSyncing :: bool
  data :: healthData
  points :: real
  status :: sync_status

definition initial_healthState :: HealthState where
  "initial_healthState =
     \<lparr>lastSync = None,
      isSyncing = False,
      data = \<lparr>hd_steps = 0, hd_calories = 0, hd_distance = 0, hd_workouts = None,
               hd_heartRate = Some 0\<rparr>,
      points = 0,
      status = not_synced\<rparr>"

subsection \<open>Points (\<open>calculateHealthPoints\<close>, lines 92-110)\<close>

definition Math_floor :: "real \<Rightarrow> real" where
  "Math_floor x = of_int \<lfloor>x\<rfloor>"

text \<open>\<open>Math.round\<close> rounds to the nearest integer, a half towards plus infinity.\<close>

definition Math_round :: "real \<Rightarrow> real" where
  "Math_round x = of_int \<lfloor>x + 1 / 2\<rfloor>"

definition workouts_or_0 :: "healthData \<Rightarrow> real" where
  "workouts_or_0 d = (case hd_workouts d of None \<Rightarrow> 0 | Some n \<Rightarrow> n)"

definition calculateHealthPoints :: "healthData \<Rightarrow> real" where
  "calculateHealthPoints d =
     (let pts = 0;
          pts = pts + Math_floor (hd_steps d / 1000);
          pts = pts + Math_floor (hd_calories d / 100);
          pts = pts + workouts_or_0 d * 5;
          pts = (if hd_distance d > 5 then pts + (hd_distance d - 5) * 2 else pts)
      in Math_round (pts * 10) / 10)"

text \<open>
  The points that \<open>updateHealthUI\<close> shows under each metric (lines 144, 156, 168
  and 180), with the same formulas as the summands of \<open>calculateHealthPoints\<close>.
\<close>

record metricPoints =
  stepsPoints :: real
  caloriesPoints :: real
  distancePoints :: real
  workoutPoints :: real

definition metric_points :: "healthData \<Rightarrow> metricPoints" where
  "metric_points d =
     \<lparr>stepsPoints = Math_floor (hd_steps d / 1000),
      caloriesPoints = Math_floor (hd_calories d / 100),
      distancePoints = (if hd_distance d > 5 then (hd_distance d - 5) * 2 else 0),
      workoutPoints = workouts_or_0 d * 5\<rparr>"

subsection \<open>The page around the health state\<close>

text \<open>
  \<open>state\<close>, \<open>saveState\<close>, \<open>updateUI\<close> and \<open>showToast\<close> belong to the page that
  this script is added to. Of \<open>state\<close> the script touches the two scores. The three
  functions are parameters: each either returns or throws, and a toast that was shown
  is kept in a log. \<open>updateHealthUI\<close> renders the card \<open>healthSyncCard\<close> when the
  page has one, from the health state alone; of the card the model keeps the badge, the
  points under the metrics, the state of the button and the bonus. It does not throw:
  the fields of \<open>data\<close> that it formats are numbers in every state.
\<close>

record matchup_state =
  userScore :: real

record app_state =
  matchup :: matchup_state
  weekPoints :: real

datatype toast = health_data_synced real | health_sync_failed

datatype js_error = Error string

record collaborators =
  saveState :: "app_state \<Rightarrow> js_error option"
  updateUI :: "app_state \<Rightarrow> js_error option"
  showToast :: "toast \<Rightarrow> js_error option"

datatype badge = badge_syncing | badge_synced | badge_failed | badge_not_synced

record card =
  statusBadge :: badge
  shown :: metricPoints
  syncDisabled :: bool
  bonus :: "real option"

record world =
  healthState :: HealthState
  state :: app_state
  healthSyncCard :: "card option"
  toasts :: "toast list"

definition render :: "HealthState \<Rightarrow> card" where
  "render hs =
     \<lparr>statusBadge =
        (if isSyncing hs then badge_syncing
         else if status hs = synced then badge_synced
         else if status hs = sync_error then badge_failed
         else badge_not_synced),
      shown = metric_points (data hs),
      syncDisabled = isSyncing hs,
      bonus = (if points hs > 0 then Some (points hs) else None)\<rparr>"

definition updateHealthUI :: "world \<Rightarrow> world" where
  "updateHealthUI w =
     (case healthSyncCard w of
        None \<Rightarrow> w
      | Some _ \<Rightarrow> w\<lparr>healthSyncCard := Some (render (healthState w))\<rparr>)"

subsection \<open>\<open>syncHealthData\<close> (lines 48-90)\<close>

text \<open>
  An \<open>async\<close> function runs up to its \<open>await\<close>, and its rest runs later, when the
  awaited timer has fired; other calls run in between. So the function is modelled in
  two parts. The first part either returns at the guard, and the promise of the call
  is resolved with \<open>undefined\<close>, or sets the flag, draws the data and suspends. The
  four results of \<open>Math.random\<close> are the parameter \<open>rnd\<close>.
\<close>

record draws =
  rnd_steps :: real
  rnd_calories :: real
  rnd_distance :: real
  rnd_workouts :: real

datatype settled = resolved_undefined | rejected js_error

datatype call_state = suspended healthData | returned settled

definition mock_data :: "draws \<Rightarrow> healthData" where
  "mock_data rnd =
     \<lparr>hd_steps = Math_floor (rnd_steps rnd * 5000) + 7000,
      hd_calories = Math_floor (rnd_calories rnd * 300) + 400,
      hd_distance = Math_floor (rnd_distance rnd * 3) + 5,
      hd_workouts = Some (Math_floor (rnd_workouts rnd * 2) + 1),
      hd_heartRate = None\<rparr>"

definition syncHealthData_begin :: "draws \<Rightarrow> world \<Rightarrow> world \<times> call_state" where
  "syncHealthData_begin rnd w =
     (if isSyncing (healthState w) then (w, returned resolved_undefined)
      else
        let w = w\<lparr>healthState := (healthState w)\<lparr>isSyncing := True\<rparr>\<rparr>;
            w = updateHealthUI w;
            mockData = mock_data rnd
        in (w, suspended mockData))"

text \<open>
  The rest of the \<open>try\<close> block, after the timer has fired. A statement that throws
  ends the block; what was assigned before stays assigned. The result is the world at
  the end of the block or at the throw, and the error thrown, if any.
\<close>

definition sync_try :: "collaborators \<Rightarrow> Date \<Rightarrow> healthData \<Rightarrow> world \<Rightarrow> world \<times> js_error option" where
  "sync_try page now mockData w =
     (let hs = healthState w;
          hs = hs\<lparr>data := mockData\<rparr>;
          hs = hs\<lparr>points := calculateHealthPoints mockData\<rparr>;
          hs = hs\<lparr>status := synced\<rparr>;
          hs = hs\<lparr>lastSync := Some now\<rparr>;
          st = state w;
          st = st\<lparr>matchup := (matchup st)\<lparr>userScore := userScore (matchup st) + points hs\<rparr>\<rparr>;
          st = st\<lparr>weekPoints := weekPoints st + points hs\<rparr>;
          w = w\<lparr>healthState := hs, state := st\<rparr>
      in case saveState page (state w) of
           Some e \<Rightarrow> (w, Some e)
         | None \<Rightarrow>
        (case updateUI page (state w) of
           Some e \<Rightarrow> (w, Some e)
         | None \<Rightarrow>
        (let w = updateHealthUI w
         in case showToast page (health_data_synced (points (healthState w))) of
              Some e \<Rightarrow> (w, Some e)
            | None \<Rightarrow>
                (w\<lparr>toasts := toasts w @ [health_data_synced (points (healthState w))]\<rparr>,
                 None))))"

definition sync_catch :: "collaborators \<Rightarrow> world \<Rightarrow> world \<times> js_error option" where
  "sync_catch page w =
     (let w = w\<lparr>healthState := (healthState w)\<lparr>status := sync_error\<rparr>\<rparr>;
          w = updateHealthUI w
      in case showToast page health_sync_failed of
           Some e \<Rightarrow> (w, Some e)
         | None \<Rightarrow> (w\<lparr>toasts := toasts w @ [health_sync_failed]\<rparr>, None))"

definition sync_finally :: "world \<Rightarrow> world" where
  "sync_finally w =
     (let w = w\<lparr>healthState := (healthState w)\<lparr>isSyncing := False\<rparr>\<rparr>
      in updateHealthUI w)"

text \<open>
  The second part: \<open>try\<close>, then \<open>catch\<close> when the block threw, then \<open>finally\<close> in
  every case. An error thrown inside \<open>catch\<close> rejects the promise of the call, after
  \<open>finally\<close> has run. The line that \<open>catch\<close> writes to the console is left out.
\<close>

definition syncHealthData_resume ::
  "collaborators \<Rightarrow> Date \<Rightarrow> healthData \<Rightarrow> world \<Rightarrow> world \<times> settled" where
  "syncHealthData_resume page now mockData w =
     (case sync_try page now mockData w of
        (w1, None) \<Rightarrow> (sync_finally w1, resolved_undefined)
      | (w1, Some _) \<Rightarrow>
          (case sync_catch page w1 of
             (w2, None) \<Rightarrow> (sync_finally w2, resolved_undefined)
           | (w2, Some e) \<Rightarrow> (sync_finally w2, rejected e)))"



subsection \<open>\<open>fetchHealthStatus\<close> (lines 23-46)\<close>

text \<open>
  What the status request comes back with: a failure (of the request, or of reading
  the reply) or a reply with \<open>hasData\<close> and the three averages. The function changes
  the health state when the reply is there.
\<close>

datatype status_reply = request_failed | reply bool real real real

definition fetchHealthStatus_resume :: "Date \<Rightarrow> status_reply \<Rightarrow> world \<Rightarrow> world" where
  "fetchHealthStatus_resume now r w =
     (case r of
        request_failed \<Rightarrow>
          updateHealthUI (w\<lparr>healthState := (healthState w)\<lparr>status := sync_error\<rparr>\<rparr>)
      | reply hasData averageSteps averageCalories averageDistance \<Rightarrow>
          (if hasData
           then updateHealthUI
                  (w\<lparr>healthState := (healthState w)
                       \<lparr>data := \<lparr>hd_steps = Math_round averageSteps,
                                 hd_calories = Math_round averageCalories,
                                 hd_distance = Math_round (averageDistance / 1000),
                                 hd_workouts = None,
                                 hd_heartRate = Some 0\<rparr>,
                        status := synced,
                        lastSync := Some now\<rparr>\<rparr>)
           else updateHealthUI w))"

subsection \<open>The page as a transition system\<close>

text \<open>
  JavaScript runs one piece of code at a time. The events of the page are: a call of
  \<open>syncHealthData\<close> (the button), the timer of a suspended call firing, and the reply
  to a status request. A configuration is the world and the calls suspended at their
  \<open>await\<close>, oldest first; timers of equal delay fire in the order they were set.
\<close>

record config =
  cfg_world :: world
  in_flight :: "healthData list"

datatype event =
  sync_requested draws
| timer_fired collaborators Date
| status_replied Date status_reply

fun step :: "config \<Rightarrow> event \<Rightarrow> config" where
  "step c (sync_requested rnd) =
     (case syncHealthData_begin rnd (cfg_world c) of
        (w, suspended mockData) \<Rightarrow> \<lparr>cfg_world = w, in_flight = in_flight c @ [mockData]\<rparr>
      | (w, returned _) \<Rightarrow> \<lparr>cfg_world = w, in_flight = in_flight c\<rparr>)"
| "step c (timer_fired page now) =
     (case in_flight c of
        [] \<Rightarrow> c
      | mockData # rest \<Rightarrow>
          \<lparr>cfg_world = fst (syncHealthData_resume page now mockData (cfg_world c)),
           in_flight = rest\<rparr>)"
| "step c (status_replied now r) =
     \<lparr>cfg_world = fetchHealthStatus_resume now r (cfg_world c), in_flight = in_flight c\<rparr>"

definition page_loaded :: "app_state \<Rightarrow> card option \<Rightarrow> config" where
  "page_loaded st cd =
     \<lparr>cfg_world = \<lparr>healthState = initial_healthState, state = st, healthSyncCard = cd,
                   toasts = []\<rparr>,
      in_flight = []\<rparr>"

definition run :: "config \<Rightarrow> event list \<Rightarrow> config" where
  "run c es = foldl step c es"

section \<open>The validation rules as the specification lists them\<close>

text \<open>
  Each rule gives the reason of its failure, or \<open>None\<close> when it passes. The
  specification's validator is the first failure in the listed order.
\<close>

definition correlation_fails :: "RawHealthData \<Rightarrow> bool" where
  "correlation_fails d \<longleftrightarrow>
     steps d > 1000 \<and> \<bar>distance d - steps d * 0.75\<bar> / (steps d * 0.75) > 0.5"

definition calories_implausible :: "RawHealthData \<Rightarrow> bool" where
  "calories_implausible d \<longleftrightarrow>
     calories d > 0 \<and> sum_list (map w_calories (workouts d)) = 0 \<and> steps d < 100"

definition spec_rule1_correlation :: "RawHealthData \<Rightarrow> string option" where
  "spec_rule1_correlation d =
     (if correlation_fails d then Some ''Steps and distance don't correlate'' else None)"

definition spec_rule2_calories :: "RawHealthData \<Rightarrow> string option" where
  "spec_rule2_calories d =
     (if calories_implausible d then Some ''Calories burned without activity'' else None)"

definition spec_rule3_workouts :: "Date \<Rightarrow> RawHealthData \<Rightarrow> string option" where
  "spec_rule3_workouts now d =
     (case find (\<lambda>w. w_duration w > 86400 \<or> w_startDate w > now) (workouts d) of
        None \<Rightarrow> None
      | Some w \<Rightarrow>
          Some (if w_duration w > 86400 then ''Workout duration exceeds 24 hours''
                else ''Workout in the future''))"

definition spec_rule4_heartRate :: "RawHealthData \<Rightarrow> string option" where
  "spec_rule4_heartRate d =
     (if list_ex (\<lambda>r. bpm r < 30 \<or> bpm r > 250) (heartRateReadings d)
      then Some ''Heart rate outside realistic range'' else None)"

definition spec_rule5_caps :: "RawHealthData \<Rightarrow> string option" where
  "spec_rule5_caps d =
     (if steps d > 100000 then Some ''Unrealistic step count''
      else if calories d > 10000 then Some ''Unrealistic calorie burn''
      else None)"

fun first_failure :: "string option list \<Rightarrow> HealthKitError + unit" where
  "first_failure [] = Inr ()"
| "first_failure (None # rules) = first_failure rules"
| "first_failure (Some reason # rules) = Inl (inconsistentData reason)"

section \<open>Concrete days, stores and pages\<close>

definition day_of ::
  "Double \<Rightarrow> Double \<Rightarrow> Double \<Rightarrow> WorkoutData list \<Rightarrow> HeartRateReading list \<Rightarrow> RawHealthData" where
  "day_of s c m ws rs =
     \<lparr>date = 0, steps = s, calories = c, distance = m, workouts = ws, heartRateReadings = rs,
      deviceInfo = \<lparr>model = ''iPhone'', systemVersion = ''17.0'',
                    identifierForVendor = ''unknown''\<rparr>,
      timestamp = 80000\<rparr>"

definition morning_run :: HKWorkout where
  "morning_run =
     \<lparr>workoutActivityType = 37, hk_duration = 1800, totalEnergyBurned = Some 300,
      totalDistance = Some 5000, hk_startDate = 3600, hk_endDate = 5400,
      bundleIdentifier = ''com.apple.health''\<rparr>"

definition evening_walk :: HKWorkout where
  "evening_walk =
     \<lparr>workoutActivityType = 52, hk_duration = 1200, totalEnergyBurned = None,
      totalDistance = None, hk_startDate = 7200, hk_endDate = 8400,
      bundleIdentifier = ''com.apple.health''\<rparr>"

text \<open>
  A store with one full day: two readings of every quantity inside the day that starts
  at 0, the heart rate stored newest first, a step sample of the next day, and two
  workouts. The encoder, the MAC and Base64 are stand-ins.
\<close>

definition full_day_store :: HKHealthStore where
  "full_day_store =
     \<lparr>quantitySamples = (\<lambda>type.
        if type = stepCount
        then Inr [\<lparr>quantity = 4000, s_startDate = 1000\<rparr>, \<lparr>quantity = 5000, s_startDate = 40000\<rparr>,
                  \<lparr>quantity = 9999, s_startDate = 90000\<rparr>]
        else if type = activeEnergyBurned
        then Inr [\<lparr>quantity = 120, s_startDate = 1000\<rparr>, \<lparr>quantity = 180, s_startDate = 40000\<rparr>]
        else if type = distanceWalkingRunning
        then Inr [\<lparr>quantity = 3000, s_startDate = 1000\<rparr>, \<lparr>quantity = 3750, s_startDate = 40000\<rparr>]
        else Inr [\<lparr>quantity = 70, s_startDate = 300\<rparr>, \<lparr>quantity = 60, s_startDate = 100\<rparr>]),
      workoutSamples = Inr [morning_run, evening_walk]\<rparr>"

definition full_day_env :: Environment where
  "full_day_env =
     \<lparr>healthStore = full_day_store,
      signingKey = ''key'',
      secondsFromGMT = 0,
      clock = 80000,
      device_model = ''iPhone'',
      device_systemVersion = ''17.0'',
      device_identifierForVendor = None,
      jsonEncode = (\<lambda>raw. model (deviceInfo raw)),
      hmacSHA256 = (\<lambda>key msg. key @ msg),
      base64EncodedString = (\<lambda>bytes. bytes)\<rparr>"

definition full_day_raw :: RawHealthData where
  "full_day_raw =
     day_of 9000 300 6750 [workoutData evening_walk, workoutData morning_run]
       [\<lparr>bpm = 60, hr_timestamp = 100\<rparr>, \<lparr>bpm = 70, hr_timestamp = 300\<rparr>]"

definition slow_heart_env :: Environment where
  "slow_heart_env =
     full_day_env\<lparr>healthStore :=
       \<lparr>quantitySamples = (\<lambda>type.
          if type = heartRate then Inr [\<lparr>quantity = 20, s_startDate = 100\<rparr>] else Inr []),
        workoutSamples = Inr []\<rparr>\<rparr>"

definition slow_heart_raw :: RawHealthData where
  "slow_heart_raw = day_of 0 0 0 [] [\<lparr>bpm = 20, hr_timestamp = 100\<rparr>]"

definition scenario_data :: healthData where
  "scenario_data =
     \<lparr>hd_steps = 12000, hd_calories = 650, hd_distance = 8, hd_workouts = Some 1,
      hd_heartRate = None\<rparr>"

definition lowest_draws :: draws where
  "lowest_draws = \<lparr>rnd_steps = 0, rnd_calories = 0, rnd_distance = 0, rnd_workouts = 0\<rparr>"

definition week_so_far :: app_state where
  "week_so_far = \<lparr>matchup = \<lparr>userScore = 100\<rparr>, weekPoints = 40\<rparr>"


definition syncing_page :: config where
  "syncing_page = run (page_loaded week_so_far None) [sync_requested lowest_draws]"

text \<open>
  The invariant of the page: the flag is set exactly while one call is suspended.
\<close>

definition one_sync :: "config \<Rightarrow> bool" where
  "one_sync c =
     (if isSyncing (healthState (cfg_world c)) then length (in_flight c) = 1
      else in_flight c = [])"

section \<open>The validator\<close>

lemma foldl_add_sum_list:
  fixes a :: real
  shows "foldl (\<lambda>acc w. acc + f w) a ws = a + sum_list (map f ws)"
  by (induction ws arbitrary: a) simp_all

lemma validate_workouts_find:
  "validate_workouts now ws =
     (case find (\<lambda>w. w_duration w > 86400 \<or> w_startDate w > now) ws of
        None \<Rightarrow> Inr ()
      | Some w \<Rightarrow>
          Inl (inconsistentData
                 (if w_duration w > 86400 then ''Workout duration exceeds 24 hours''
                  else ''Workout in the future'')))"
  by (induction ws) simp_all

lemma validate_heartRate_list_ex:
  "validate_heartRate rs =
     (if list_ex (\<lambda>r. bpm r < 30 \<or> bpm r > 250) rs
      then Inl (inconsistentData ''Heart rate outside realistic range'')
      else Inr ())"
  by (induction rs) simp_all

lemma validate_workouts_accepts:
  "validate_workouts now ws = Inr () \<longleftrightarrow>
     list_all (\<lambda>w. w_duration w \<le> 86400 \<and> w_startDate w \<le> now) ws"
  by (induction ws) (simp_all add: not_less)

lemma validate_heartRate_accepts:
  "validate_heartRate rs = Inr () \<longleftrightarrow> list_all (\<lambda>r. 30 \<le> bpm r \<and> bpm r \<le> 250) rs"
  by (induction rs) (auto simp add: not_less)

lemma validate_workouts_not_correlation:
  "validate_workouts now ws \<noteq> Inl (inconsistentData ''Steps and distance don't correlate'')"
  by (induction ws) simp_all

lemma validate_heartRate_not_correlation:
  "validate_heartRate rs \<noteq> Inl (inconsistentData ''Steps and distance don't correlate'')"
  by (induction rs) simp_all

text \<open>The validator as a chain of its checks, the first two named as in the rules.\<close>

lemma validateDataConsistency_chain:
  "validateDataConsistency now d =
     (if correlation_fails d
      then Inl (inconsistentData ''Steps and distance don't correlate'')
      else if calories_implausible d
      then Inl (inconsistentData ''Calories burned without activity'')
      else case validate_workouts now (workouts d) of
             Inl e \<Rightarrow> Inl e
           | Inr _ \<Rightarrow>
              (case validate_heartRate (heartRateReadings d) of
                 Inl e \<Rightarrow> Inl e
               | Inr _ \<Rightarrow>
                   if steps d > 100000 then Inl (inconsistentData ''Unrealistic step count'')
                   else if calories d > 10000
                   then Inl (inconsistentData ''Unrealistic calorie burn'')
                   else Inr ()))"
  unfolding validateDataConsistency_def correlation_fails_def calories_implausible_def Let_def
    foldl_add_sum_list
  by (simp only: add_0_left)

text \<open>
  C2. When \<open>steps > 1000\<close>, the validator rejects with the reason of the steps and
  distance correlation exactly if \<open>|distance - 0.75 * steps| / (0.75 * steps) > 0.5\<close>.
  When \<open>steps \<le> 1000\<close>, it never rejects with that reason, whatever the distance.
\<close>

theorem correlation_rule_decides:
  "(steps d > 1000 \<longrightarrow>
      (validateDataConsistency now d =
         Inl (inconsistentData ''Steps and distance don't correlate'')
       \<longleftrightarrow> \<bar>distance d - 0.75 * steps d\<bar> / (0.75 * steps d) > 0.5))
   \<and> (steps d \<le> 1000 \<longrightarrow>
      validateDataConsistency now d \<noteq>
        Inl (inconsistentData ''Steps and distance don't correlate''))"
  using validate_workouts_not_correlation[of now "workouts d"]
    validate_heartRate_not_correlation[of "heartRateReadings d"]
  by (auto simp add: validateDataConsistency_def Let_def mult.commute split: sum.splits)

theorem correlation_rule_decides_witness:
  "steps (day_of 2000 0 4000 [] []) > 1000
   \<and> validateDataConsistency 0 (day_of 2000 0 4000 [] []) =
       Inl (inconsistentData ''Steps and distance don't correlate'')
   \<and> steps (day_of 500 0 100000 [] []) \<le> 1000
   \<and> validateDataConsistency 0 (day_of 500 0 100000 [] []) \<noteq>
       Inl (inconsistentData ''Steps and distance don't correlate'')"
  using correlation_rule_decides[of "day_of 2000 0 4000 [] []" 0]
    correlation_rule_decides[of "day_of 500 0 100000 [] []" 0]
  by (simp add: day_of_def)

text \<open>
  C3. The validator is a function of the clock reading and the data, so a given input
  has one result. That result is the first failure among the five rules in the listed
  order: correlation, calories, workouts, heart rate, caps.
\<close>

theorem validator_first_failing_rule:
  "validateDataConsistency now d =
     first_failure [spec_rule1_correlation d, spec_rule2_calories d,
       spec_rule3_workouts now d, spec_rule4_heartRate d, spec_rule5_caps d]"
  by (simp add: validateDataConsistency_chain spec_rule1_correlation_def
      spec_rule2_calories_def spec_rule3_workouts_def spec_rule4_heartRate_def
      spec_rule5_caps_def validate_workouts_find validate_heartRate_list_ex
      split: option.splits)

text \<open>
  A day that breaks rule 4 and both caps of rule 5 is rejected with the reason of
  rule 4.
\<close>

theorem validator_first_failing_rule_witness:
  "validateDataConsistency 0
     (day_of 150000 20000 112500 [] [\<lparr>bpm = 20, hr_timestamp = 0\<rparr>]) =
   Inl (inconsistentData ''Heart rate outside realistic range'')"
  using validator_first_failing_rule
    [of 0 "day_of 150000 20000 112500 [] [\<lparr>bpm = 20, hr_timestamp = 0\<rparr>]"]
  by (simp add: spec_rule1_correlation_def spec_rule2_calories_def spec_rule3_workouts_def
      spec_rule4_heartRate_def spec_rule5_caps_def correlation_fails_def
      calories_implausible_def day_of_def)

text \<open>
  C4, as stated: every day with \<open>steps = 0\<close> and \<open>calories = 0\<close> is accepted. It fails
  on a day without steps and calories that has a heart-rate reading of 20 beats per
  minute: rule 4 rejects it.
\<close>

theorem zero_activity_rejected:
  "steps slow_heart_raw = 0 \<and> calories slow_heart_raw = 0
   \<and> validateDataConsistency 0 slow_heart_raw =
       Inl (inconsistentData ''Heart rate outside realistic range'')"
  by (simp add: slow_heart_raw_def day_of_def validateDataConsistency_def)

text \<open>
  C4, amended. A day with \<open>steps = 0\<close> and \<open>calories = 0\<close> passes rules 1, 2 and 5,
  and is accepted exactly if every workout passes rule 3 and every heart-rate reading
  passes rule 4; so it is accepted when it has no workouts and no readings.
\<close>

theorem zero_activity_accepted_iff:
  "steps d = 0 \<Longrightarrow> calories d = 0 \<Longrightarrow>
   validateDataConsistency now d = Inr () \<longleftrightarrow>
     list_all (\<lambda>w. w_duration w \<le> 86400 \<and> w_startDate w \<le> now) (workouts d)
     \<and> list_all (\<lambda>r. 30 \<le> bpm r \<and> bpm r \<le> 250) (heartRateReadings d)"
  using validate_workouts_accepts[of now "workouts d"]
    validate_heartRate_accepts[of "heartRateReadings d"]
  by (auto simp add: validateDataConsistency_def Let_def split: sum.splits)

theorem zero_activity_accepted_iff_witness:
  "steps (day_of 0 0 0 [] []) = 0 \<and> calories (day_of 0 0 0 [] []) = 0
   \<and> validateDataConsistency 0 (day_of 0 0 0 [] []) = Inr ()"
proof -
  have s: "steps (day_of 0 0 0 [] []) = 0" and c: "calories (day_of 0 0 0 [] []) = 0"
    by (simp_all add: day_of_def)
  show ?thesis
    using s c zero_activity_accepted_iff[OF s c, of 0] by (simp add: day_of_def)
qed

section \<open>The order of the fetched sequences\<close>

lemma sort_key_negated_descending:
  fixes f :: "'a \<Rightarrow> real"
  shows "sorted (rev (map f (sort_key (\<lambda>x. - f x) xs)))"
proof -
  have "sorted (map (\<lambda>x. - f x) (sort_key (\<lambda>x. - f x) xs))"
    by (rule sorted_sort_key)
  then have "sorted_wrt (\<lambda>a b. f b \<le> f a) (sort_key (\<lambda>x. - f x) xs)"
    by (simp add: sorted_wrt_map)
  then show ?thesis
    by (simp add: sorted_wrt_rev sorted_wrt_map)
qed

lemma fetchSamples_ascending:
  "fetchSamples env type d = Inr samples \<Longrightarrow> sorted (map s_startDate samples)"
  by (auto simp add: fetchSamples_def descriptor_result_def sortedBy_def Let_def
      split: sum.splits)

lemma fetchHeartRateReadings_ascending:
  "fetchHeartRateReadings env d = Inr rs \<Longrightarrow> sorted (map hr_timestamp rs)"
  by (auto simp add: fetchHeartRateReadings_def heartRateReading_def comp_def
      split: sum.splits dest!: fetchSamples_ascending)

lemma fetchWorkouts_descending:
  "fetchWorkouts env d = Inr ws \<Longrightarrow> sorted (rev (map w_startDate ws))"
  using sort_key_negated_descending[of hk_startDate]
  by (auto simp add: fetchWorkouts_def descriptor_result_def sortedBy_def Let_def
      workoutData_def comp_def split: sum.splits)

lemma full_day_fetched: "fetchRawHealthData full_day_env 0 = Inr full_day_raw"
  by (simp add: fetchRawHealthData_def fetchSteps_def fetchCalories_def fetchDistance_def
      fetchWorkouts_def fetchHeartRateReadings_def fetchSamples_def descriptor_result_def
      sortedBy_def startOfDay_def full_day_env_def full_day_store_def full_day_raw_def
      day_of_def getDeviceInfo_def morning_run_def evening_walk_def workoutData_def
      heartRateReading_def Let_def)

lemma full_day_valid: "validateDataConsistency 80000 full_day_raw = Inr ()"
  by (simp add: validateDataConsistency_def full_day_raw_def day_of_def workoutData_def
      morning_run_def evening_walk_def Let_def)

lemma slow_heart_fetched: "fetchRawHealthData slow_heart_env 0 = Inr slow_heart_raw"
  by (simp add: fetchRawHealthData_def fetchSteps_def fetchCalories_def fetchDistance_def
      fetchWorkouts_def fetchHeartRateReadings_def fetchSamples_def descriptor_result_def
      sortedBy_def startOfDay_def slow_heart_env_def full_day_env_def slow_heart_raw_def
      day_of_def getDeviceInfo_def heartRateReading_def Let_def)

text \<open>
  C10, as stated: in the raw data of every day, the workouts are in ascending order of
  their start. It fails on the store of the full day: the morning run starts at 3600,
  the evening walk at 7200, and the raw data has the walk first.
\<close>

theorem workouts_newest_first:
  "fetchRawHealthData full_day_env 0 = Inr full_day_raw
   \<and> map w_startDate (workouts full_day_raw) = [7200, 3600]
   \<and> \<not> sorted (map w_startDate (workouts full_day_raw))"
  using full_day_fetched
  by (simp add: full_day_raw_def day_of_def workoutData_def morning_run_def evening_walk_def)

text \<open>
  C10, amended. In the raw data of every day, the heart-rate readings are in ascending
  order of their timestamp, and the workouts are in descending order of their start,
  the newest first.
\<close>

theorem readings_ascending_workouts_descending:
  "fetchRawHealthData env d = Inr raw \<Longrightarrow>
     sorted (map hr_timestamp (heartRateReadings raw))
     \<and> sorted (rev (map w_startDate (workouts raw)))"
  by (auto simp add: fetchRawHealthData_def split: sum.splits
      dest: fetchHeartRateReadings_ascending fetchWorkouts_descending)

theorem readings_ascending_workouts_descending_witness:
  "fetchRawHealthData full_day_env 0 = Inr full_day_raw
   \<and> map hr_timestamp (heartRateReadings full_day_raw) = [100, 300]
   \<and> sorted (map hr_timestamp (heartRateReadings full_day_raw))
   \<and> sorted (rev (map w_startDate (workouts full_day_raw)))"
  using full_day_fetched readings_ascending_workouts_descending[OF full_day_fetched]
  by (simp add: full_day_raw_def day_of_def)

section \<open>Validation before signing\<close>

text \<open>
  C6. The pipeline never signs data that the validator rejected. When the five fetches
  have given the raw data, \<open>fetchVerifiedHealthData\<close> returns a record if and only if
  the validator accepts the raw data; the record then holds the raw data, the Base64
  string of the MAC of their serialization under the signing key, and version 1.0.
  When the validator rejects, the call fails with the error of the validator; when a
  fetch fails, with the error of the fetch. Every record returned carries raw data that
  the validator accepted and the signature over them.
\<close>

theorem signed_iff_validated:
  "(fetchRawHealthData env d = Inr raw \<longrightarrow>
      ((\<exists>v. fetchVerifiedHealthData env d = Inr v) \<longleftrightarrow>
         validateDataConsistency (clock env) raw = Inr ())
      \<and> (validateDataConsistency (clock env) raw = Inr () \<longrightarrow>
           fetchVerifiedHealthData env d =
             Inr \<lparr>rawData = raw,
                  signature = base64EncodedString env
                    (hmacSHA256 env (signingKey env) (jsonEncode env raw)),
                  version = ''1.0''\<rparr>)
      \<and> (\<forall>e. validateDataConsistency (clock env) raw = Inl e \<longrightarrow>
           fetchVerifiedHealthData env d = Inl (healthKitError e)))
   \<and> (\<forall>e. fetchRawHealthData env d = Inl e \<longrightarrow> fetchVerifiedHealthData env d = Inl e)
   \<and> (\<forall>v. fetchVerifiedHealthData env d = Inr v \<longrightarrow>
         fetchRawHealthData env d = Inr (rawData v)
         \<and> validateDataConsistency (clock env) (rawData v) = Inr ()
         \<and> signature v = base64EncodedString env
              (hmacSHA256 env (signingKey env) (jsonEncode env (rawData v)))
         \<and> version v = ''1.0'')"
  by (auto simp add: fetchVerifiedHealthData_def createVerifiedData_def Let_def
      split: sum.splits)

theorem signed_iff_validated_witness:
  "fetchRawHealthData full_day_env 0 = Inr full_day_raw
   \<and> validateDataConsistency (clock full_day_env) full_day_raw = Inr ()
   \<and> fetchVerifiedHealthData full_day_env 0 =
       Inr \<lparr>rawData = full_day_raw, signature = ''keyiPhone'', version = ''1.0''\<rparr>
   \<and> fetchRawHealthData slow_heart_env 0 = Inr slow_heart_raw
   \<and> validateDataConsistency (clock slow_heart_env) slow_heart_raw =
       Inl (inconsistentData ''Heart rate outside realistic range'')
   \<and> fetchVerifiedHealthData slow_heart_env 0 =
       Inl (healthKitError (inconsistentData ''Heart rate outside realistic range''))"
proof -
  have clk: "clock full_day_env = 80000" "clock slow_heart_env = 80000"
    by (simp_all add: slow_heart_env_def full_day_env_def)
  have sig: "base64EncodedString full_day_env
      (hmacSHA256 full_day_env (signingKey full_day_env) (jsonEncode full_day_env full_day_raw)) =
      ''keyiPhone''"
    by (simp add: full_day_env_def full_day_raw_def day_of_def)
  have rej: "validateDataConsistency 80000 slow_heart_raw =
      Inl (inconsistentData ''Heart rate outside realistic range'')"
    by (simp add: slow_heart_raw_def day_of_def validateDataConsistency_def)
  have signed: "fetchVerifiedHealthData full_day_env 0 =
      Inr \<lparr>rawData = full_day_raw, signature = ''keyiPhone'', version = ''1.0''\<rparr>"
    using signed_iff_validated[of full_day_env 0 full_day_raw] full_day_fetched full_day_valid
      clk sig
    by simp
  have refused: "fetchVerifiedHealthData slow_heart_env 0 =
      Inl (healthKitError (inconsistentData ''Heart rate outside realistic range''))"
    using signed_iff_validated[of slow_heart_env 0 slow_heart_raw] slow_heart_fetched rej clk
    by simp
  show ?thesis
    using signed refused full_day_fetched slow_heart_fetched full_day_valid rej clk by simp
qed

section \<open>Points\<close>

text \<open>
  C1. For 12000 steps, 650 calories, 8 km and one workout the summands are 12, 6, 5
  and 6 and the total is 29. In general the total is the sum of the four summands,
  rounded to one decimal, a half upwards. The function returns the total only; the
  summands are the points the card shows under each metric.
\<close>

theorem calculateHealthPoints_scenario:
  "calculateHealthPoints scenario_data = 29
   \<and> metric_points scenario_data =
       \<lparr>stepsPoints = 12, caloriesPoints = 6, distancePoints = 6, workoutPoints = 5\<rparr>
   \<and> calculateHealthPoints d =
       of_int \<lfloor>(stepsPoints (metric_points d) + caloriesPoints (metric_points d)
                 + workoutPoints (metric_points d) + distancePoints (metric_points d)) * 10
                + 1 / 2\<rfloor> / 10"
  by (simp add: calculateHealthPoints_def metric_points_def scenario_data_def Math_floor_def
      Math_round_def workouts_or_0_def Let_def)

section \<open>One sync at a time\<close>

lemma updateHealthUI_healthState [simp]: "healthState (updateHealthUI w) = healthState w"
  by (simp add: updateHealthUI_def split: option.splits)

lemma updateHealthUI_state [simp]: "state (updateHealthUI w) = state w"
  by (simp add: updateHealthUI_def split: option.splits)

lemma updateHealthUI_toasts [simp]: "toasts (updateHealthUI w) = toasts w"
  by (simp add: updateHealthUI_def split: option.splits)

lemma sync_finally_clears: "isSyncing (healthState (sync_finally w)) = False"
  by (simp add: sync_finally_def)

lemma resume_clears:
  "isSyncing (healthState (fst (syncHealthData_resume page now m w))) = False"
  by (simp add: syncHealthData_resume_def sync_finally_clears split: prod.splits option.splits)

lemma begin_while_syncing:
  "isSyncing (healthState w) \<Longrightarrow> syncHealthData_begin rnd w = (w, returned resolved_undefined)"
  by (simp add: syncHealthData_begin_def)

lemma begin_while_idle:
  "\<not> isSyncing (healthState w) \<Longrightarrow>
   snd (syncHealthData_begin rnd w) = suspended (mock_data rnd)
   \<and> isSyncing (healthState (fst (syncHealthData_begin rnd w)))"
  by (simp add: syncHealthData_begin_def Let_def)

lemma status_reply_keeps_flag:
  "isSyncing (healthState (fetchHealthStatus_resume now r w)) = isSyncing (healthState w)"
  by (simp add: fetchHealthStatus_resume_def split: status_reply.splits)

lemma one_sync_step:
  assumes "one_sync c"
  shows "one_sync (step c e)"
proof (cases e)
  case (sync_requested rnd)
  with assms show ?thesis
    by (cases "isSyncing (healthState (cfg_world c))")
       (simp_all add: one_sync_def syncHealthData_begin_def Let_def)
next
  case (timer_fired page now)
  with assms show ?thesis
    by (cases "in_flight c") (auto simp add: one_sync_def resume_clears split: if_splits)
next
  case (status_replied now r)
  with assms show ?thesis
    by (simp add: one_sync_def status_reply_keeps_flag)
qed

lemma one_sync_run: "one_sync c \<Longrightarrow> one_sync (run c es)"
  unfolding run_def by (induction es arbitrary: c) (simp_all add: one_sync_step)

lemma one_sync_page_loaded: "one_sync (page_loaded st cd)"
  by (simp add: one_sync_def page_loaded_def initial_healthState_def)

lemma syncing_page_world:
  "cfg_world syncing_page =
     \<lparr>healthState = initial_healthState\<lparr>isSyncing := True\<rparr>, state = week_so_far,
      healthSyncCard = None, toasts = []\<rparr>
   \<and> in_flight syncing_page = [mock_data lowest_draws]"
  by (simp add: syncing_page_def run_def page_loaded_def syncHealthData_begin_def
      initial_healthState_def updateHealthUI_def Let_def)

lemma syncing_page_flag: "isSyncing (healthState (cfg_world syncing_page))"
  by (simp add: syncing_page_world)

text \<open>
  C7, as stated: a request made while a sync is in progress is rejected with
  \<open>SyncInProgress\<close> and is not silently dropped. It fails on the page that is waiting
  for its first sync: the second call returns at the guard, its promise is resolved
  with \<open>undefined\<close> and not rejected, and no toast is shown.
\<close>

theorem second_request_dropped_silently:
  "isSyncing (healthState (cfg_world syncing_page))
   \<and> syncHealthData_begin lowest_draws (cfg_world syncing_page) =
       (cfg_world syncing_page, returned resolved_undefined)
   \<and> snd (syncHealthData_begin lowest_draws (cfg_world syncing_page)) \<noteq>
       returned (rejected (Error ''SyncInProgress''))
   \<and> toasts (fst (syncHealthData_begin lowest_draws (cfg_world syncing_page))) = []"
  by (simp add: syncing_page_world syncHealthData_begin_def)

text \<open>
  C7, amended. Whatever has happened on the page since it was loaded, at most one sync
  is in flight, and the flag is set exactly while one is. A request made while the flag
  is set returns at once: its promise is resolved with \<open>undefined\<close>, without error and
  without message, it is not queued, and it leaves the world and the sync in flight
  as they were.
\<close>

theorem one_sync_in_flight:
  "length (in_flight (run (page_loaded st cd) es)) \<le> 1
   \<and> (isSyncing (healthState (cfg_world (run (page_loaded st cd) es))) \<longleftrightarrow>
        in_flight (run (page_loaded st cd) es) \<noteq> [])
   \<and> (isSyncing (healthState (cfg_world (run (page_loaded st cd) es))) \<longrightarrow>
        syncHealthData_begin rnd (cfg_world (run (page_loaded st cd) es)) =
          (cfg_world (run (page_loaded st cd) es), returned resolved_undefined)
        \<and> step (run (page_loaded st cd) es) (sync_requested rnd) =
            run (page_loaded st cd) es)"
  using one_sync_run[OF one_sync_page_loaded, of st cd es]
  by (auto simp add: one_sync_def begin_while_syncing split: if_splits)

theorem one_sync_in_flight_witness:
  "isSyncing (healthState (cfg_world (run (page_loaded week_so_far None)
      [sync_requested lowest_draws])))
   \<and> step (run (page_loaded week_so_far None) [sync_requested lowest_draws])
        (sync_requested lowest_draws) =
      run (page_loaded week_so_far None) [sync_requested lowest_draws]"
proof -
  have busy: "isSyncing (healthState (cfg_world (run (page_loaded week_so_far None)
      [sync_requested lowest_draws])))"
    using syncing_page_flag by (simp add: syncing_page_def)
  show ?thesis
    using busy one_sync_in_flight[of week_so_far None "[sync_requested lowest_draws]" lowest_draws]
    by blast
qed

section \<open>A sync that fails\<close>






section \<open>The flag after a sync\<close>

text \<open>
  C9. The rest of a suspended call always ends with the flag cleared: when the block
  succeeds, when it throws, and when the \<open>catch\<close> block throws as well. So, whatever
  has happened on the page since it was loaded, after a timer has fired the flag is
  not set and the next request starts a sync.
\<close>

theorem flag_cleared_after_sync:
  "\<not> isSyncing (healthState (fst (syncHealthData_resume page now m w)))
   \<and> \<not> isSyncing (healthState (cfg_world
          (step (run (page_loaded st cd) es) (timer_fired page now))))
   \<and> snd (syncHealthData_begin rnd
            (cfg_world (step (run (page_loaded st cd) es) (timer_fired page now)))) =
       suspended (mock_data rnd)"
proof -
  let ?c = "run (page_loaded st cd) es"
  have inv: "one_sync ?c"
    by (rule one_sync_run[OF one_sync_page_loaded])
  have idle: "\<not> isSyncing (healthState (cfg_world (step ?c (timer_fired page now))))"
    using inv
    by (cases "in_flight ?c") (auto simp add: one_sync_def resume_clears split: if_splits)
  show ?thesis
    using idle begin_while_idle resume_clears by simp
qed

end
